theory Spec2Isabelle
  imports Main "HOL-Library.AList"
begin

text \<open>
  The repository holds two Deno servers for a point-of-sale application, \<^verbatim>\<open>server.ts\<close>
  and a second file (\<^verbatim>\<open>part_000\<close>). Each keeps a registry of WebSocket connections, an
  in-memory cache of four collections and a table of sessions, and answers socket
  messages and HTTP requests. This theory embeds both: the values they handle, the state
  they share, every handler as a function on that state, and then the properties of the
  handlers.
\<close>

section \<open>JavaScript values\<close>

text \<open>
  Every value the two servers handle comes out of \<^verbatim>\<open>JSON.parse\<close> or is built by the
  handlers from such values, so a value is a JSON value, or \<^verbatim>\<open>undefined\<close> (what reading
  an absent property gives). Numbers are the integer-valued ones (identifiers, quantities,
  the milliseconds of \<^verbatim>\<open>Date.now()\<close>), carried as \<open>int\<close>: \<open>JNum n\<close> stands for the double
  \<open>n\<close>, so for an integer that is a double, as every integer within \<open>\<plusminus> 2^53\<close> is; a
  number with a fraction is not a value of the model. An object is the list of its own
  members, read by key, in the order in which JavaScript lists them.
\<close>

datatype jsval =
    JUndefined
  | JNull
  | JBool bool
  | JNum int
  | JStr string
  | JArr "jsval list"
  | JObj "(string \<times> jsval) list"

type_synonym props = "(string \<times> jsval) list"

text \<open>What \<^verbatim>\<open>if (v)\<close>, \<^verbatim>\<open>v || w\<close> and \<^verbatim>\<open>v && w\<close> test.\<close>

fun truthy :: "jsval \<Rightarrow> bool" where
  "truthy JUndefined = False"
| "truthy JNull = False"
| "truthy (JBool b) = b"
| "truthy (JNum n) = (n \<noteq> 0)"
| "truthy (JStr s) = (s \<noteq> [])"
| "truthy (JArr xs) = True"
| "truthy (JObj ps) = True"

text \<open>Reading a property of \<^verbatim>\<open>null\<close> or \<^verbatim>\<open>undefined\<close> throws a TypeError.\<close>

fun nullish :: "jsval \<Rightarrow> bool" where
  "nullish JUndefined = True"
| "nullish JNull = True"
| "nullish v = False"

text \<open>
  \<open>get_prop k v\<close> is \<^verbatim>\<open>v.k\<close> for a value \<open>v\<close> that is not nullish and a name \<open>k\<close> the
  source writes out (\<^verbatim>\<open>type\<close>, \<^verbatim>\<open>data\<close>, \<^verbatim>\<open>items\<close>, \<^verbatim>\<open>id\<close>, \<^verbatim>\<open>quantity\<close>, ...): an object
  gives its own property or \<^verbatim>\<open>undefined\<close>; arrays, strings, numbers and booleans have no
  property of these names.
\<close>

fun get_prop :: "string \<Rightarrow> jsval \<Rightarrow> jsval" where
  "get_prop k (JObj ps) = (case map_of ps k of Some v \<Rightarrow> v | None \<Rightarrow> JUndefined)"
| "get_prop k v = JUndefined"

text \<open>\<^verbatim>\<open>o.k = v\<close> on the property list of an object: overwrite in place, or add at the end.\<close>

definition set_prop :: "string \<Rightarrow> jsval \<Rightarrow> props \<Rightarrow> props" where
  "set_prop k v ps = AList.update k v ps"

text \<open>
  \<^verbatim>\<open>a === b\<close>. Primitives compare by value. Arrays and objects compare by reference; the
  operands the source compares (a cached stock item's \<^verbatim>\<open>id\<close> and a line item's
  \<^verbatim>\<open>id\<close>) are parsed from different frames, hence never the same object.
\<close>

fun strict_eq :: "jsval \<Rightarrow> jsval \<Rightarrow> bool" where
  "strict_eq JUndefined JUndefined = True"
| "strict_eq JNull JNull = True"
| "strict_eq (JBool a) (JBool b) = (a = b)"
| "strict_eq (JNum a) (JNum b) = (a = b)"
| "strict_eq (JStr a) (JStr b) = (a = b)"
| "strict_eq a b = False"

text \<open>The decimal numeral of an array index, as a property key.\<close>

fun index_key :: "nat \<Rightarrow> string" where
  "index_key n =
     (if n < 10 then [char_of (48 + n)]
      else index_key (n div 10) @ [char_of (48 + n mod 10)])"

text \<open>
  The own enumerable properties that an object spread \<^verbatim>\<open>{...v}\<close> and
  \<^verbatim>\<open>Object.assign(target, v)\<close> copy: those of an object, the indexed elements of an array,
  the indexed characters of a string, and nothing for any other value.
\<close>

fun own_props :: "jsval \<Rightarrow> props" where
  "own_props (JObj ps) = ps"
| "own_props (JArr xs) = zip (map index_key [0..<length xs]) xs"
| "own_props (JStr s) = zip (map index_key [0..<length s]) (map (\<lambda>c. JStr [c]) s)"
| "own_props v = []"

text \<open>Copying properties one by one onto a target, later keys overwriting earlier ones.\<close>

definition assign :: "props \<Rightarrow> props \<Rightarrow> props" where
  "assign target src = foldl (\<lambda>t (k, v). set_prop k v t) target src"

text \<open>
  JavaScript lists the members of an object with the array indices first, in ascending
  order, and the other keys after them in the order of their creation; a spread,
  \<^verbatim>\<open>Object.assign\<close> and \<^verbatim>\<open>JSON.stringify\<close> read them in this order. An array index is the
  canonical numeral of a number below \<open>2^32 - 1\<close>. \<open>own_order\<close> puts a list of members,
  given in the order of their creation, into this order.
\<close>

definition is_digit :: "char \<Rightarrow> bool" where
  "is_digit c = (c \<in> set ''0123456789'')"

definition index_value :: "string \<Rightarrow> nat" where
  "index_value k = foldl (\<lambda>n c. 10 * n + (of_char c - 48)) 0 k"

definition array_index :: "string \<Rightarrow> nat option" where
  "array_index k =
     (if k \<noteq> [] \<and> list_all is_digit k \<and> index_value k < 4294967295
         \<and> index_key (index_value k) = k
      then Some (index_value k) else None)"

definition own_order :: "props \<Rightarrow> props" where
  "own_order ps =
     map snd (sort_key fst
       (List.map_filter (\<lambda>kv. map_option (\<lambda>i. (i, kv)) (array_index (fst kv))) ps))
     @ filter (\<lambda>kv. array_index (fst kv) = None) ps"

datatype js_error = TypeError

text \<open>
  \<^verbatim>\<open>arr.push(x)\<close>: only an array has \<^verbatim>\<open>push\<close>; on any other value the call throws a
  TypeError.
\<close>

fun push :: "jsval \<Rightarrow> jsval \<Rightarrow> js_error + jsval" where
  "push (JArr xs) x = Inr (JArr (xs @ [x]))"
| "push v x = Inl TypeError"

section \<open>The shared state of a server\<close>

type_synonym conn = nat

datatype ready_state = CONNECTING | OPEN | CLOSING | CLOSED

text \<open>
  \<open>connections\<close> is the \<^verbatim>\<open>Set<WebSocket>\<close> in insertion order, \<open>readyState\<close> the
  transport's state of each socket, \<open>cache\<close> the \<^verbatim>\<open>cache\<close> object (its four collections,
  and under \<open>extra\<close> whatever other property \<^verbatim>\<open>Object.assign\<close> has given it),
  \<open>sessions\<close> the \<^verbatim>\<open>Map\<close> keyed by socket. \<open>sent\<close> logs every call
  \<^verbatim>\<open>c.send(JSON.stringify(m))\<close> in order, as the pair of the socket \<open>c\<close> and the message
  object \<open>m\<close> that is serialised.
\<close>

record shared_cache =
  stockItems :: jsval
  sales :: jsval
  transactions :: jsval
  audit :: jsval
  extra :: props

record server_state =
  connections :: "conn list"
  readyState :: "conn \<Rightarrow> ready_state"
  cache :: shared_cache
  sessions :: "conn \<rightharpoonup> jsval"
  sent :: "(conn \<times> jsval) list"

text \<open>
  The members of the \<^verbatim>\<open>cache\<close> object, as a spread or a serialisation reads them: the
  four collections were created first, the members of \<open>extra\<close> after them.
\<close>

definition cache_props :: "shared_cache \<Rightarrow> props" where
  "cache_props c =
     own_order ([(''stockItems'', stockItems c), (''sales'', sales c),
                 (''transactions'', transactions c), (''audit'', audit c)] @ extra c)"

definition initial_cache :: shared_cache where
  "initial_cache =
     \<lparr>stockItems = JArr [], sales = JArr [], transactions = JArr [], audit = JArr [],
      extra = []\<rparr>"

definition initial_state :: server_state where
  "initial_state =
     \<lparr>connections = [], readyState = (\<lambda>c. CONNECTING), cache = initial_cache,
      sessions = Map.empty, sent = []\<rparr>"

text \<open>
  The outcome of a block of statements that may throw after it has changed the state.
  \<open>Unmodelled\<close> marks a run that leaves the values above (see \<open>subtract\<close> and
  \<open>decrement\<close>).
\<close>

datatype 'a completion = Normal 'a | Thrown 'a | Unmodelled

text \<open>\<^verbatim>\<open>connections.add(ws)\<close> and \<^verbatim>\<open>connections.delete(ws)\<close> on the insertion-ordered set.\<close>

definition set_add :: "conn \<Rightarrow> conn list \<Rightarrow> conn list" where
  "set_add ws cs = (if ws \<in> set cs then cs else cs @ [ws])"

definition set_delete :: "conn \<Rightarrow> conn list \<Rightarrow> conn list" where
  "set_delete ws cs = removeAll ws cs"

definition send :: "conn \<Rightarrow> jsval \<Rightarrow> server_state \<Rightarrow> server_state" where
  "send ws m s = s\<lparr>sent := sent s @ [(ws, m)]\<rparr>"

text \<open>
  Both files define \<^verbatim>\<open>broadcast\<close> alike:
  \<^verbatim>\<open>connections.forEach(conn => { if (conn.readyState === WebSocket.OPEN) conn.send(data) })\<close>
\<close>

definition broadcast :: "jsval \<Rightarrow> server_state \<Rightarrow> server_state" where
  "broadcast m s =
     s\<lparr>sent := sent s @
        map (\<lambda>c. (c, m)) (filter (\<lambda>c. readyState s c = OPEN) (connections s))\<rparr>"

section \<open>server.ts\<close>

subsection \<open>updateStockLevels\<close>

text \<open>
  Lines 160 to 167.
  \<^verbatim>\<open>cache.stockItems.find((s) => s.id === item.id)\<close> over the elements of the array, as the
  index of the element it returns: the first whose \<^verbatim>\<open>id\<close> is strictly equal to the line
  item's. The callback reads \<^verbatim>\<open>s.id\<close>, then \<^verbatim>\<open>item.id\<close>; either read throws on
  \<^verbatim>\<open>null\<close>.
\<close>

fun find_by_id :: "jsval \<Rightarrow> jsval list \<Rightarrow> js_error + nat option" where
  "find_by_id item [] = Inr None"
| "find_by_id item (s # ss) =
     (if nullish s \<or> nullish item then Inl TypeError
      else if strict_eq (get_prop ''id'' s) (get_prop ''id'' item) then Inr (Some 0)
      else (case find_by_id item ss of
              Inr (Some i) \<Rightarrow> Inr (Some (Suc i))
            | r \<Rightarrow> r))"

text \<open>
  \<^verbatim>\<open>stockItem.quantity -= item.quantity\<close> subtracts two doubles. The model computes the
  difference where the doubles do: for two integers within \<open>\<plusminus> 2^53\<close> whose difference is within
  these bounds as well, all three being doubles. Any other difference (of a number
  beyond the bounds, or of an operand that JavaScript first converts to a number, such as
  a string or an absent quantity) is a double the model does not compute: \<open>None\<close>.
\<close>

definition safe :: "int \<Rightarrow> bool" where
  "safe n = (- 9007199254740992 \<le> n \<and> n \<le> 9007199254740992)"

fun subtract :: "jsval \<Rightarrow> jsval \<Rightarrow> jsval option" where
  "subtract (JNum a) (JNum b) =
     (if safe a \<and> safe b \<and> safe (a - b) then Some (JNum (a - b)) else None)"
| "subtract a b = None"

text \<open>
  The assignment, on the truthy element that \<^verbatim>\<open>find\<close> returned. An object gets the
  difference as its \<^verbatim>\<open>quantity\<close>. On a number, a string or \<^verbatim>\<open>true\<close> the assignment
  throws a TypeError (the file is a module, hence strict code). An array would get a
  property beside its elements, whose value is no integer (\<^verbatim>\<open>undefined - q\<close> is
  \<^verbatim>\<open>NaN\<close>): such a run is left unmodelled, like one whose difference the model does not
  compute.
\<close>

fun decrement :: "jsval \<Rightarrow> jsval \<Rightarrow> jsval completion" where
  "decrement (JObj ps) item =
     (case subtract (get_prop ''quantity'' (JObj ps)) (get_prop ''quantity'' item) of
        Some q \<Rightarrow> Normal (JObj (set_prop ''quantity'' q ps))
      | None \<Rightarrow> Unmodelled)"
| "decrement (JArr xs) item = Unmodelled"
| "decrement stockItem item = Thrown stockItem"

text \<open>
  The body of \<^verbatim>\<open>items.forEach(item => ...)\<close> on the value of \<^verbatim>\<open>cache.stockItems\<close>:
  \<^verbatim>\<open>find\<close> exists on arrays only, \<^verbatim>\<open>if (stockItem)\<close> skips a falsy element, and the
  element found is changed in place.
\<close>

definition forEach_body :: "jsval \<Rightarrow> jsval \<Rightarrow> jsval completion" where
  "forEach_body item stock =
     (case stock of
        JArr ss \<Rightarrow>
          (case find_by_id item ss of
             Inl e \<Rightarrow> Thrown stock
           | Inr None \<Rightarrow> Normal stock
           | Inr (Some i) \<Rightarrow>
               (if truthy (ss ! i) then
                  (case decrement (ss ! i) item of
                     Normal stockItem \<Rightarrow> Normal (JArr (ss[i := stockItem]))
                   | Thrown stockItem \<Rightarrow> Thrown stock
                   | Unmodelled \<Rightarrow> Unmodelled)
                else Normal stock))
      | _ \<Rightarrow> Thrown stock)"

fun forEach :: "jsval list \<Rightarrow> jsval \<Rightarrow> jsval completion" where
  "forEach [] stock = Normal stock"
| "forEach (item # items) stock =
     (case forEach_body item stock of
        Normal stock' \<Rightarrow> forEach items stock'
      | r \<Rightarrow> r)"

text \<open>\<^verbatim>\<open>items.forEach\<close> exists on arrays only.\<close>

definition updateStockLevels :: "jsval \<Rightarrow> server_state \<Rightarrow> server_state completion" where
  "updateStockLevels items s =
     (case items of
        JArr xs \<Rightarrow>
          (case forEach xs (stockItems (cache s)) of
             Normal stock \<Rightarrow> Normal (s\<lparr>cache := (cache s)\<lparr>stockItems := stock\<rparr>\<rparr>)
           | Thrown stock \<Rightarrow> Thrown (s\<lparr>cache := (cache s)\<lparr>stockItems := stock\<rparr>\<rparr>)
           | Unmodelled \<Rightarrow> Unmodelled)
      | _ \<Rightarrow> Thrown s)"

subsection \<open>logAudit\<close>

text \<open>Lines 169 to 182: the entry is pushed to \<^verbatim>\<open>cache.audit\<close>, then the collection is broadcast.\<close>

definition logAudit :: "string \<Rightarrow> jsval \<Rightarrow> int \<Rightarrow> server_state \<Rightarrow> server_state completion" where
  "logAudit action data now s =
     (let auditEntry = JObj [(''action'', JStr action), (''data'', data), (''timestamp'', JNum now)]
      in case push (audit (cache s)) auditEntry of
           Inl e \<Rightarrow> Thrown s
         | Inr a \<Rightarrow>
             Normal (broadcast (JObj [(''type'', JStr ''audit_updated''), (''data'', a)])
                       (s\<lparr>cache := (cache s)\<lparr>audit := a\<rparr>\<rparr>)))"

subsection \<open>The message handler of handleWebSocket\<close>

text \<open>
  Lines 40 to 148, one definition for each branch of the \<^verbatim>\<open>switch\<close>.
  \<open>now k\<close> is what the \<open>k\<close>-th call of \<^verbatim>\<open>Date.now()\<close> made while one event is handled
  returns. A handler's own \<^verbatim>\<open>ws.send\<close> is logged like any send; the transport delivers
  a message event on an open socket.
\<close>

definition auth_case :: "conn \<Rightarrow> jsval \<Rightarrow> (nat \<Rightarrow> int) \<Rightarrow> server_state \<Rightarrow> server_state" where
  "auth_case ws message now s =
     (if truthy (get_prop ''userType'' message) \<and> truthy (get_prop ''userName'' message) then
        send ws
          (JObj [(''type'', JStr ''initial_data''),
                 (''stockItems'', stockItems (cache s)),
                 (''sales'', sales (cache s)),
                 (''transactions'', transactions (cache s))])
          (s\<lparr>sessions := (sessions s)(ws \<mapsto>
               JObj [(''userType'', get_prop ''userType'' message),
                     (''userName'', get_prop ''userName'' message),
                     (''timestamp'', JNum (now 0))])\<rparr>)
      else s)"

definition stock_update_case :: "jsval \<Rightarrow> server_state \<Rightarrow> server_state" where
  "stock_update_case message s =
     (let data = get_prop ''data'' message;
          s1 = s\<lparr>cache := (cache s)\<lparr>stockItems := (if truthy data then data else JArr [])\<rparr>\<rparr>
      in broadcast (JObj [(''type'', JStr ''stock_updated''), (''data'', stockItems (cache s1))]) s1)"

definition sale_update_case :: "jsval \<Rightarrow> (nat \<Rightarrow> int) \<Rightarrow> server_state \<Rightarrow> server_state completion" where
  "sale_update_case message now s =
     (let data = get_prop ''data'' message in
      if truthy data then
        (case push (sales (cache s)) (JObj (set_prop ''timestamp'' (JNum (now 0)) (own_props data))) of
           Inl e \<Rightarrow> Thrown s
         | Inr a \<Rightarrow>
             (let s1 = s\<lparr>cache := (cache s)\<lparr>sales := a\<rparr>\<rparr>;
                  s2 = broadcast (JObj [(''type'', JStr ''sales_updated''), (''data'', a)]) s1
              in case (if truthy (get_prop ''items'' data)
                       then updateStockLevels (get_prop ''items'' data) s2
                       else Normal s2) of
                   Normal s3 \<Rightarrow> logAudit ''sale_created'' data (now 1) s3
                 | r \<Rightarrow> r))
      else Normal s)"

definition transaction_update_case ::
    "jsval \<Rightarrow> (nat \<Rightarrow> int) \<Rightarrow> server_state \<Rightarrow> server_state completion" where
  "transaction_update_case message now s =
     (let data = get_prop ''data'' message in
      if truthy data then
        (case push (transactions (cache s))
                (JObj (set_prop ''timestamp'' (JNum (now 0)) (own_props data))) of
           Inl e \<Rightarrow> Thrown s
         | Inr a \<Rightarrow>
             (let s1 = s\<lparr>cache := (cache s)\<lparr>transactions := a\<rparr>\<rparr>;
                  s2 = broadcast (JObj [(''type'', JStr ''transactions_updated''), (''data'', a)]) s1
              in logAudit ''transaction_created'' data (now 1) s2))
      else Normal s)"

definition sync_request_case :: "conn \<Rightarrow> server_state \<Rightarrow> server_state" where
  "sync_request_case ws s =
     send ws
       (JObj (own_order (assign [(''type'', JStr ''sync_response'')] (cache_props (cache s))))) s"

text \<open>
  The body of \<^verbatim>\<open>try\<close> after \<^verbatim>\<open>JSON.parse\<close>: \<^verbatim>\<open>switch (message.type)\<close>. Reading
  \<^verbatim>\<open>message.type\<close> throws when the frame parsed to \<^verbatim>\<open>null\<close>; the default branch only
  logs to the console.
\<close>

definition try_block ::
    "conn \<Rightarrow> jsval \<Rightarrow> (nat \<Rightarrow> int) \<Rightarrow> server_state \<Rightarrow> server_state completion" where
  "try_block ws message now s =
     (if nullish message then Thrown s
      else if get_prop ''type'' message = JStr ''auth'' then Normal (auth_case ws message now s)
      else if get_prop ''type'' message = JStr ''stock_update'' then
        Normal (stock_update_case message s)
      else if get_prop ''type'' message = JStr ''sale_update'' then sale_update_case message now s
      else if get_prop ''type'' message = JStr ''transaction_update'' then
        transaction_update_case message now s
      else if get_prop ''type'' message = JStr ''sync_request'' then
        Normal (sync_request_case ws s)
      else Normal s)"

definition error_message :: jsval where
  "error_message =
     JObj [(''type'', JStr ''error''), (''message'', JStr ''Failed to process message'')]"

text \<open>
  \<^verbatim>\<open>ws.onmessage\<close>. The frame is \<open>None\<close> when \<^verbatim>\<open>JSON.parse(event.data)\<close> throws and
  \<open>Some message\<close> when it returns \<open>message\<close>. The \<^verbatim>\<open>catch\<close> block keeps whatever the
  \<^verbatim>\<open>try\<close> block had changed before it threw. The result is \<open>None\<close> for a run left
  unmodelled.
\<close>

definition onmessage ::
    "conn \<Rightarrow> jsval option \<Rightarrow> (nat \<Rightarrow> int) \<Rightarrow> server_state \<Rightarrow> server_state option" where
  "onmessage ws frame now s =
     (case (case frame of None \<Rightarrow> Thrown s | Some message \<Rightarrow> try_block ws message now s) of
        Normal s' \<Rightarrow> Some s'
      | Thrown s' \<Rightarrow> Some (send ws error_message s')
      | Unmodelled \<Rightarrow> None)"

definition handleWebSocket :: "conn \<Rightarrow> server_state \<Rightarrow> server_state" where
  "handleWebSocket ws s = s\<lparr>connections := set_add ws (connections s)\<rparr>"

definition onopen :: "conn \<Rightarrow> server_state \<Rightarrow> server_state" where
  "onopen ws s =
     send ws (JObj [(''type'', JStr ''connected''), (''message'', JStr ''Connected to server'')]) s"

definition onclose :: "conn \<Rightarrow> server_state \<Rightarrow> server_state" where
  "onclose ws s =
     s\<lparr>connections := set_delete ws (connections s), sessions := (sessions s)(ws := None)\<rparr>"

definition onerror :: "conn \<Rightarrow> server_state \<Rightarrow> server_state" where
  "onerror ws s =
     s\<lparr>connections := set_delete ws (connections s), sessions := (sessions s)(ws := None)\<rparr>"

subsection \<open>handleRequest\<close>

text \<open>
  Lines 184 to 269.
  Of a request the handlers read the \<^verbatim>\<open>upgrade\<close> header, the path of the URL, the method
  and (\<^verbatim>\<open>request.json()\<close>, in the second file) the body: \<open>None\<close> when it is not JSON.
\<close>

record request =
  upgrade :: "string option"
  pathname :: string
  http_method :: string
  body :: "jsval option"

datatype payload = NoBody | TextBody string | JsonBody jsval

datatype response =
    Response nat "(string \<times> string) list" payload
  | Upgraded
  | ServeDir

definition json_headers :: "(string \<times> string) list" where
  "json_headers = [(''Content-Type'', ''application/json'')]"

text \<open>\<^verbatim>\<open>v.length\<close> for a value that is not nullish.\<close>

fun js_length :: "jsval \<Rightarrow> jsval" where
  "js_length (JArr xs) = JNum (int (length xs))"
| "js_length (JStr s) = JNum (int (length s))"
| "js_length (JObj ps) = get_prop ''length'' (JObj ps)"
| "js_length v = JUndefined"

definition health :: "server_state \<Rightarrow> jsval" where
  "health s =
     JObj [(''status'', JStr ''ok''),
           (''connections'', JNum (int (length (connections s)))),
           (''cacheSizes'',
              JObj [(''stockItems'', js_length (stockItems (cache s))),
                    (''sales'', js_length (sales (cache s))),
                    (''transactions'', js_length (transactions (cache s))),
                    (''audit'', js_length (audit (cache s)))])]"

definition clear_cache :: "server_state \<Rightarrow> server_state" where
  "clear_cache s =
     broadcast (JObj [(''type'', JStr ''cache_cleared'')])
       (s\<lparr>cache := (cache s)\<lparr>stockItems := JArr [], sales := JArr [],
                               transactions := JArr [], audit := JArr []\<rparr>\<rparr>)"

text \<open>
  The answer of the remote database to the probe of \<^verbatim>\<open>test-supabase\<close> is an input:
  \<open>Inl msg\<close> an error with that message, \<open>Inr data\<close> the rows.
\<close>

definition test_supabase :: "string + jsval \<Rightarrow> response" where
  "test_supabase answer =
     (case answer of
        Inr data \<Rightarrow>
          Response 200 json_headers
            (JsonBody (JObj [(''status'', JStr ''connected''),
                             (''message'', JStr ''Supabase connection successful''),
                             (''data'', data)]))
      | Inl msg \<Rightarrow>
          Response 500 json_headers
            (JsonBody (JObj [(''status'', JStr ''error''),
                             (''message'', JStr ''Failed to connect to Supabase''),
                             (''error'', JStr msg)])))"

definition not_found :: response where
  "not_found =
     Response 404 json_headers (JsonBody (JObj [(''error'', JStr ''API endpoint not found'')]))"

text \<open>
  \<open>socket\<close> is the socket \<^verbatim>\<open>Deno.upgradeWebSocket(req)\<close> creates. The path of the
  \<^verbatim>\<open>switch\<close> is \<^verbatim>\<open>url.pathname.replace('/api/', '')\<close>, on a path that starts with
  \<^verbatim>\<open>/api/\<close>: what follows these five characters.
\<close>

definition handleRequest ::
    "request \<Rightarrow> conn \<Rightarrow> string + jsval \<Rightarrow> server_state \<Rightarrow> response \<times> server_state" where
  "handleRequest req socket answer s =
     (if upgrade req = Some ''websocket'' then (Upgraded, handleWebSocket socket s)
      else if take 5 (pathname req) = ''/api/'' then
        (let path = drop 5 (pathname req) in
         if path = ''health'' then (Response 200 json_headers (JsonBody (health s)), s)
         else if path = ''clear-cache'' then
           (if http_method req = ''POST'' then
              (Response 200 json_headers
                 (JsonBody (JObj [(''message'', JStr ''Cache cleared successfully'')])),
               clear_cache s)
            else (not_found, s))
         else if path = ''test-supabase'' then (test_supabase answer, s)
         else (not_found, s))
      else (ServeDir, s))"

section \<open>The second server file\<close>

text \<open>
  The second source file (\<^verbatim>\<open>part_000\<close>) is a server of its own over the same three
  stores: the registry of sockets, the cache and the sessions. Its
  \<^verbatim>\<open>broadcast\<close>, its registration of a socket and its \<^verbatim>\<open>onopen\<close> are those of
  \<^verbatim>\<open>server.ts\<close>; what differs carries the suffix \<open>_part0\<close>.
\<close>

subsection \<open>handleWebSocketMessage\<close>

text \<open>Lines 54 to 101 of the second file.
  \<^verbatim>\<open>Object.assign(cache, v)\<close>: each own property of \<open>v\<close> is written to the cache
  object, a collection's name to the collection and any other name beside them; a nullish
  \<open>v\<close> has none.\<close>

definition cache_put :: "shared_cache \<Rightarrow> string \<times> jsval \<Rightarrow> shared_cache" where
  "cache_put c kv =
     (if fst kv = ''stockItems'' then c\<lparr>stockItems := snd kv\<rparr>
      else if fst kv = ''sales'' then c\<lparr>sales := snd kv\<rparr>
      else if fst kv = ''transactions'' then c\<lparr>transactions := snd kv\<rparr>
      else if fst kv = ''audit'' then c\<lparr>audit := snd kv\<rparr>
      else c\<lparr>extra := set_prop (fst kv) (snd kv) (extra c)\<rparr>)"

definition Object_assign :: "shared_cache \<Rightarrow> jsval \<Rightarrow> shared_cache" where
  "Object_assign c v = foldl cache_put c (own_props v)"

definition relay :: "string \<Rightarrow> jsval \<Rightarrow> server_state \<Rightarrow> server_state" where
  "relay ty message s =
     broadcast (JObj [(''type'', JStr ty), (''data'', get_prop ''data'' message)]) s"

text \<open>
  \<^verbatim>\<open>switch (message.type)\<close> with no default branch. A \<^verbatim>\<open>data\<close> that is absent is
  \<^verbatim>\<open>undefined\<close> in the message object that \<^verbatim>\<open>broadcast\<close> serialises.
\<close>

definition handleWebSocketMessage :: "conn \<Rightarrow> jsval \<Rightarrow> server_state \<Rightarrow> js_error + server_state" where
  "handleWebSocketMessage ws message s =
     (if nullish message then Inl TypeError
      else if get_prop ''type'' message = JStr ''auth'' then
        Inr (send ws (JObj [(''type'', JStr ''auth_success''), (''message'', JStr ''Authenticated'')])
               (s\<lparr>sessions := (sessions s)(ws \<mapsto>
                    JObj [(''userType'', get_prop ''userType'' message),
                          (''userName'', get_prop ''userName'' message),
                          (''authenticated'', JBool True)])\<rparr>))
      else if get_prop ''type'' message = JStr ''stock_update'' then
        Inr (relay ''stock_update'' message s)
      else if get_prop ''type'' message = JStr ''sale_update'' then
        Inr (relay ''sale_update'' message s)
      else if get_prop ''type'' message = JStr ''audit_update'' then
        Inr (relay ''audit_update'' message s)
      else if get_prop ''type'' message = JStr ''sync_request'' then
        Inr (send ws (JObj [(''type'', JStr ''sync_response''),
                            (''data'', JObj (cache_props (cache s)))]) s)
      else if get_prop ''type'' message = JStr ''sync_response'' then
        Inr (s\<lparr>cache := Object_assign (cache s) (get_prop ''data'' message)\<rparr>)
      else Inr s)"

text \<open>\<^verbatim>\<open>ws.onmessage\<close>, lines 34 to 41: the \<^verbatim>\<open>catch\<close> block only logs to the console.
  \<^verbatim>\<open>ws.onclose\<close> and \<^verbatim>\<open>ws.onerror\<close>, lines 43 to 51, delete the socket from the registry.\<close>

definition onmessage_part0 :: "conn \<Rightarrow> jsval option \<Rightarrow> server_state \<Rightarrow> server_state" where
  "onmessage_part0 ws frame s =
     (case frame of
        None \<Rightarrow> s
      | Some message \<Rightarrow>
          (case handleWebSocketMessage ws message s of Inl e \<Rightarrow> s | Inr s' \<Rightarrow> s'))"

definition onclose_part0 :: "conn \<Rightarrow> server_state \<Rightarrow> server_state" where
  "onclose_part0 ws s = s\<lparr>connections := set_delete ws (connections s)\<rparr>"

definition onerror_part0 :: "conn \<Rightarrow> server_state \<Rightarrow> server_state" where
  "onerror_part0 ws s = s\<lparr>connections := set_delete ws (connections s)\<rparr>"

subsection \<open>handleAPI\<close>

text \<open>Lines 113 to 240 of the second file: \<^verbatim>\<open>handleRequest\<close> and \<^verbatim>\<open>handleAPI\<close>.\<close>

definition cors_headers :: "(string \<times> string) list" where
  "cors_headers =
     [(''Access-Control-Allow-Origin'', ''*''),
      (''Access-Control-Allow-Methods'', ''GET, POST, PUT, DELETE, OPTIONS''),
      (''Access-Control-Allow-Headers'', ''Content-Type, Authorization''),
      (''Content-Type'', ''application/json'')]"

definition json_response :: "nat \<Rightarrow> jsval \<Rightarrow> response" where
  "json_response st v = Response st cors_headers (JsonBody v)"

definition success :: response where
  "success = json_response 200 (JObj [(''success'', JBool True)])"

definition internal_error :: response where
  "internal_error = json_response 500 (JObj [(''error'', JStr ''Internal server error'')])"

definition not_found_part0 :: response where
  "not_found_part0 = json_response 404 (JObj [(''error'', JStr ''Not found'')])"

definition settings :: jsval where
  "settings =
     JObj [(''lowStockThreshold'', JNum 20), (''expiryWarningDays'', JNum 60),
           (''defaultMarkup'', JNum 50), (''defaultVAT'', JNum 15),
           (''overstockAlert'', JNum 150), (''profitMarginAlert'', JNum 10)]"

text \<open>
  The \<^verbatim>\<open>POST\<close> branch of a collection: \<^verbatim>\<open>request.json()\<close> throws on a body that is
  not JSON and \<^verbatim>\<open>push\<close> on a collection that is not an array; the \<^verbatim>\<open>catch\<close> block
  answers 500.
\<close>

definition post_record ::
    "(shared_cache \<Rightarrow> jsval) \<Rightarrow> (jsval \<Rightarrow> shared_cache \<Rightarrow> shared_cache) \<Rightarrow> string \<Rightarrow>
     request \<Rightarrow> server_state \<Rightarrow> response \<times> server_state" where
  "post_record collection store ty req s =
     (case body req of
        None \<Rightarrow> (internal_error, s)
      | Some data \<Rightarrow>
          (case push (collection (cache s)) data of
             Inl e \<Rightarrow> (internal_error, s)
           | Inr a \<Rightarrow>
               (success,
                broadcast (JObj [(''type'', JStr ty), (''data'', data)])
                  (s\<lparr>cache := store a (cache s)\<rparr>))))"

definition login :: "request \<Rightarrow> response" where
  "login req =
     (case body req of
        None \<Rightarrow> internal_error
      | Some b \<Rightarrow>
          (if nullish b then internal_error
           else let loginType = get_prop ''loginType'' b; password = get_prop ''password'' b in
             if (loginType = JStr ''user'' \<and> password = JStr ''123456'') \<or>
                (loginType = JStr ''admin'' \<and> password = JStr ''esubalew2123'')
             then json_response 200
                    (JObj [(''success'', JBool True), (''userType'', loginType),
                           (''userName'',
                              if loginType = JStr ''admin'' then JStr ''Esubalew Biyazin''
                              else JStr ''User'')])
             else json_response 401
                    (JObj [(''success'', JBool False),
                           (''message'', JStr ''Invalid credentials'')])))"

definition handleAPI :: "request \<Rightarrow> server_state \<Rightarrow> response \<times> server_state" where
  "handleAPI req s =
     (if http_method req = ''OPTIONS'' then (Response 200 cors_headers NoBody, s)
      else if pathname req = ''/api/stock'' then
        (if http_method req = ''GET'' then (json_response 200 (stockItems (cache s)), s)
         else if http_method req = ''POST'' then
           post_record stockItems (\<lambda>a c. c\<lparr>stockItems := a\<rparr>) ''stock_update'' req s
         else (not_found_part0, s))
      else if pathname req = ''/api/sales'' then
        (if http_method req = ''GET'' then (json_response 200 (sales (cache s)), s)
         else if http_method req = ''POST'' then
           post_record sales (\<lambda>a c. c\<lparr>sales := a\<rparr>) ''sale_update'' req s
         else (not_found_part0, s))
      else if pathname req = ''/api/audit'' then
        (if http_method req = ''GET'' then (json_response 200 (audit (cache s)), s)
         else if http_method req = ''POST'' then
           post_record audit (\<lambda>a c. c\<lparr>audit := a\<rparr>) ''audit_update'' req s
         else (not_found_part0, s))
      else if pathname req = ''/api/settings'' then
        (if http_method req = ''GET'' then (json_response 200 settings, s) else (not_found_part0, s))
      else if pathname req = ''/api/login'' then
        (if http_method req = ''POST'' then (login req, s) else (not_found_part0, s))
      else (not_found_part0, s))"

definition handleRequest_part0 :: "request \<Rightarrow> conn \<Rightarrow> server_state \<Rightarrow> response \<times> server_state" where
  "handleRequest_part0 req socket s =
     (if pathname req = ''/ws'' then
        (if upgrade req = Some ''websocket'' then (Upgraded, handleWebSocket socket s)
         else (Response 400 [] (TextBody ''Expected WebSocket upgrade''), s))
      else if take 5 (pathname req) = ''/api/'' then handleAPI req s
      else (ServeDir, s))"

section \<open>Auxiliary notions of the statements\<close>

text \<open>
  \<open>relog l s c\<close> is the completion \<open>c\<close> of a block started in state \<open>s\<close>, with the log
  that \<open>s\<close> began with replaced by \<open>l\<close>: what the block sent follows \<open>l\<close>.
\<close>

definition relog ::
    "(conn \<times> jsval) list \<Rightarrow> server_state \<Rightarrow> server_state completion \<Rightarrow> server_state completion" where
  "relog l s c =
     (case c of
        Normal r \<Rightarrow> Normal (r\<lparr>sent := l @ drop (length (sent s)) (sent r)\<rparr>)
      | Thrown r \<Rightarrow> Thrown (r\<lparr>sent := l @ drop (length (sent s)) (sent r)\<rparr>)
      | Unmodelled \<Rightarrow> Unmodelled)"


fun quantity_of :: "jsval \<Rightarrow> int" where
  "quantity_of (JNum n) = n"
| "quantity_of v = 0"

fun set_quantity :: "int \<Rightarrow> jsval \<Rightarrow> jsval" where
  "set_quantity n (JObj ps) = JObj (set_prop ''quantity'' (JNum n) ps)"
| "set_quantity n v = v"

fun adjustStock :: "jsval \<Rightarrow> int \<Rightarrow> jsval list \<Rightarrow> jsval list" where
  "adjustStock itemId delta [] = []"
| "adjustStock itemId delta (r # rs) =
     (if strict_eq (get_prop ''id'' r) itemId
      then set_quantity (quantity_of (get_prop ''quantity'' r) - delta) r # rs
      else r # adjustStock itemId delta rs)"







text \<open>
  What \<^verbatim>\<open>server.ts\<close> keeps true of three of its collections, which it only ever pushes
  to or empties: they are arrays.
\<close>

fun is_array :: "jsval \<Rightarrow> bool" where
  "is_array (JArr xs) = True"
| "is_array v = False"

definition arrays_kept :: "shared_cache \<Rightarrow> bool" where
  "arrays_kept c = (is_array (sales c) \<and> is_array (transactions c) \<and> is_array (audit c))"

section \<open>Example inputs\<close>

text \<open>
  Three registered sockets, the third one closed, and a stock of two items; the frames,
  requests and events that the closed theorems below evaluate.
\<close>

definition example_stock :: jsval where
  "example_stock =
     JArr [JObj [(''id'', JNum 1), (''quantity'', JNum 10)],
           JObj [(''id'', JNum 2), (''quantity'', JNum 5)]]"

definition twin_stock :: jsval where
  "twin_stock =
     JArr [JObj [(''id'', JNum 1), (''quantity'', JNum 10)],
           JObj [(''id'', JNum 1), (''quantity'', JNum 20)]]"

definition example_state :: server_state where
  "example_state =
     \<lparr>connections = [0, 1, 2],
      readyState = (\<lambda>c. if c = 2 then CLOSED else OPEN),
      cache = initial_cache\<lparr>stockItems := example_stock\<rparr>,
      sessions = Map.empty,
      sent = []\<rparr>"

definition frame_of :: "string \<Rightarrow> jsval" where
  "frame_of ty = JObj [(''type'', JStr ty)]"

definition frame_with :: "string \<Rightarrow> jsval \<Rightarrow> jsval" where
  "frame_with ty data = JObj [(''type'', JStr ty), (''data'', data)]"


definition auth_frame :: jsval where
  "auth_frame =
     JObj [(''type'', JStr ''auth''), (''userType'', JStr ''admin''),
           (''userName'', JStr ''Sara'')]"

definition line :: "int \<Rightarrow> int \<Rightarrow> jsval" where
  "line i q = JObj [(''id'', JNum i), (''quantity'', JNum q)]"

definition clock :: "nat \<Rightarrow> int" where
  "clock k = 1000 + int k"

definition post :: "string \<Rightarrow> jsval option \<Rightarrow> request" where
  "post path b = \<lparr>upgrade = None, pathname = path, http_method = ''POST'', body = b\<rparr>"

text \<open>A state that \<^verbatim>\<open>server.ts\<close> reaches: one socket has registered and opened, and has
  sent the stock.\<close>

definition example_reached :: server_state where
  "example_reached =
     \<lparr>connections = [0],
      readyState = (\<lambda>c. if c = 0 then OPEN else CONNECTING),
      cache = initial_cache\<lparr>stockItems := example_stock\<rparr>,
      sessions = Map.empty,
      sent = [(0, frame_with ''stock_updated'' example_stock)]\<rparr>"

section \<open>Properties\<close>

lemma get_prop_not_nullish: "get_prop k v = JStr t \<Longrightarrow> \<not> nullish v"
  by (cases v) simp_all

text \<open>The index that \<open>find_by_id\<close> returns is one of the array.\<close>

lemma find_by_id_bound: "find_by_id item ss = Inr (Some i) \<Longrightarrow> i < length ss"
  by (induction ss arbitrary: i) (auto split: if_splits sum.splits option.splits)

subsection \<open>server.ts: update messages without data\<close>

text \<open>
  C9. In \<^verbatim>\<open>server.ts\<close>, a \<^verbatim>\<open>stock_update\<close> message whose \<^verbatim>\<open>data\<close> is absent or
  \<^verbatim>\<open>null\<close> replaces the cached stock collection by the empty array, and sends
  \<^verbatim>\<open>stock_updated\<close> with the empty array to every registered socket that is open; nothing
  else changes.
\<close>

theorem stock_update_without_data:
  assumes "get_prop ''type'' message = JStr ''stock_update''"
      and "get_prop ''data'' message = JUndefined \<or> get_prop ''data'' message = JNull"
  shows "onmessage ws (Some message) now s =
           Some (s\<lparr>cache := (cache s)\<lparr>stockItems := JArr []\<rparr>,
                   sent := sent s @
                     map (\<lambda>c. (c, JObj [(''type'', JStr ''stock_updated''), (''data'', JArr [])]))
                       (filter (\<lambda>c. readyState s c = OPEN) (connections s))\<rparr>)"
  using assms
  by (auto simp: onmessage_def try_block_def stock_update_case_def broadcast_def Let_def
      dest: get_prop_not_nullish)

theorem stock_update_without_data_witness:
  "onmessage 0 (Some (frame_with ''stock_update'' JNull)) clock example_state =
     Some (example_state\<lparr>cache := initial_cache,
             sent := [(0, frame_with ''stock_updated'' (JArr [])),
                      (1, frame_with ''stock_updated'' (JArr []))]\<rparr>)"
  using stock_update_without_data
          [of "frame_with ''stock_update'' JNull" 0 clock example_state]
  by (simp add: frame_with_def example_state_def initial_cache_def)

text \<open>
  C10. In \<^verbatim>\<open>server.ts\<close>, a \<^verbatim>\<open>sale_update\<close> or \<^verbatim>\<open>transaction_update\<close> message whose
  \<^verbatim>\<open>data\<close> is absent does nothing: the state after the handler is the state before it, so
  the four collections are unchanged and nothing is sent.
\<close>

theorem update_without_data_noop:
  assumes "get_prop ''type'' message = JStr ''sale_update''
         \<or> get_prop ''type'' message = JStr ''transaction_update''"
      and "get_prop ''data'' message = JUndefined"
  shows "onmessage ws (Some message) now s = Some s"
  using assms
  by (auto simp: onmessage_def try_block_def sale_update_case_def transaction_update_case_def
      dest: get_prop_not_nullish)

theorem update_without_data_noop_witness:
  "onmessage 0 (Some (frame_of ''sale_update'')) clock example_state = Some example_state
   \<and> onmessage 1 (Some (frame_of ''transaction_update'')) clock example_state
       = Some example_state"
  using update_without_data_noop [of "frame_of ''sale_update''" 0 clock example_state]
        update_without_data_noop [of "frame_of ''transaction_update''" 1 clock example_state]
  by (simp add: frame_of_def)

subsection \<open>server.ts and the second file: stock_update\<close>

text \<open>
  C3, as amended. On a \<^verbatim>\<open>stock_update\<close> message, \<^verbatim>\<open>server.ts\<close> replaces the cached
  stock collection by the payload when the payload is truthy and by the empty array
  otherwise, and sends \<^verbatim>\<open>stock_updated\<close> with the new collection to every registered
  socket that is open. The second file sends \<^verbatim>\<open>stock_update\<close> with the payload to every
  registered socket that is open and leaves the cache as it was.
\<close>

theorem stock_update_effect:
  assumes "get_prop ''type'' message = JStr ''stock_update''"
  shows "onmessage ws (Some message) now s =
           Some (s\<lparr>cache := (cache s)\<lparr>stockItems :=
                     (if truthy (get_prop ''data'' message) then get_prop ''data'' message
                      else JArr [])\<rparr>,
                   sent := sent s @
                     map (\<lambda>c. (c, JObj [(''type'', JStr ''stock_updated''),
                                        (''data'', if truthy (get_prop ''data'' message)
                                                   then get_prop ''data'' message else JArr [])]))
                       (filter (\<lambda>c. readyState s c = OPEN) (connections s))\<rparr>)
       \<and> onmessage_part0 ws (Some message) s =
           s\<lparr>sent := sent s @
                map (\<lambda>c. (c, JObj [(''type'', JStr ''stock_update''),
                                   (''data'', get_prop ''data'' message)]))
                  (filter (\<lambda>c. readyState s c = OPEN) (connections s))\<rparr>"
  using assms
  by (auto simp: onmessage_def try_block_def stock_update_case_def broadcast_def Let_def
        onmessage_part0_def handleWebSocketMessage_def relay_def
      dest: get_prop_not_nullish)

theorem stock_update_effect_witness:
  "onmessage 0 (Some (frame_with ''stock_update'' twin_stock)) clock example_state =
     Some (example_state\<lparr>cache := initial_cache\<lparr>stockItems := twin_stock\<rparr>,
             sent := [(0, frame_with ''stock_updated'' twin_stock),
                      (1, frame_with ''stock_updated'' twin_stock)]\<rparr>)
   \<and> onmessage_part0 0 (Some (frame_with ''stock_update'' twin_stock)) example_state =
       example_state\<lparr>sent := [(0, frame_with ''stock_update'' twin_stock),
                                (1, frame_with ''stock_update'' twin_stock)]\<rparr>"
  using stock_update_effect [of "frame_with ''stock_update'' twin_stock" 0 clock example_state]
  by (simp add: frame_with_def twin_stock_def example_state_def)

text \<open>
  The claim as stated fails twice. In the second file the stock collection of the
  cache is still empty after a \<^verbatim>\<open>stock_update\<close> that carries two items; and in
  \<^verbatim>\<open>server.ts\<close> the payload \<^verbatim>\<open>0\<close> is not what the stock collection becomes: the
  two items of the cache give way to the empty array.
\<close>

theorem stock_update_counterexample:
  "stockItems (cache (onmessage_part0 0 (Some (frame_with ''stock_update'' example_stock))
       initial_state)) = JArr []
   \<and> example_stock \<noteq> JArr []
   \<and> map_option (stockItems \<circ> cache)
         (onmessage 0 (Some (frame_with ''stock_update'' (JNum 0))) clock example_state) =
       Some (JArr [])"
  by (simp add: onmessage_part0_def handleWebSocketMessage_def relay_def broadcast_def
      frame_with_def example_stock_def initial_state_def initial_cache_def
      onmessage_def try_block_def stock_update_case_def)

subsection \<open>The log of sends does not steer a handler\<close>

lemma updateStockLevels_sent_eq:
  "updateStockLevels items s = Normal r \<Longrightarrow> sent r = sent s"
  by (auto simp add: updateStockLevels_def split: jsval.splits completion.splits)

lemma updateStockLevels_sent_eq2:
  "updateStockLevels items s = Thrown r \<Longrightarrow> sent r = sent s"
  by (auto simp add: updateStockLevels_def split: jsval.splits completion.splits)

lemma updateStockLevels_relog:
  "updateStockLevels items (s\<lparr>sent := l\<rparr>) = relog l s (updateStockLevels items s)"
  by (simp add: updateStockLevels_def relog_def split: jsval.splits completion.splits)

lemma logAudit_relog:
  "logAudit a d n (s\<lparr>sent := l\<rparr>) = relog l s (logAudit a d n s)"
  by (simp add: logAudit_def broadcast_def relog_def split: sum.splits)

lemma logAudit_after:
  assumes "sent r = sent s @ out"
  shows "logAudit a d n (r\<lparr>sent := l @ out\<rparr>) = relog l s (logAudit a d n r)"
  using assms by (simp add: logAudit_def broadcast_def relog_def split: sum.splits)

lemma sale_relog:
  "sale_update_case m now (s\<lparr>sent := l\<rparr>) = relog l s (sale_update_case m now s)"
proof (cases "truthy (get_prop ''data'' m)")
  case False
  then show ?thesis by (simp add: sale_update_case_def relog_def)
next
  case True
  show ?thesis
  proof (cases "push (sales (cache s))
                  (JObj (set_prop ''timestamp'' (JNum (now 0)) (own_props (get_prop ''data'' m))))")
    case (Inl e)
    with True show ?thesis by (simp add: sale_update_case_def relog_def)
  next
    case (Inr a)
    let ?bc = "JObj [(''type'', JStr ''sales_updated''), (''data'', a)]"
    let ?s2 = "broadcast ?bc (s\<lparr>cache := (cache s)\<lparr>sales := a\<rparr>\<rparr>)"
    let ?out = "map (\<lambda>c. (c, ?bc)) (filter (\<lambda>c. readyState s c = OPEN) (connections s))"
    have s2: "broadcast ?bc (s\<lparr>sent := l, cache := (cache s)\<lparr>sales := a\<rparr>\<rparr>) = ?s2\<lparr>sent := l @ ?out\<rparr>"
      and s2_sent: "sent ?s2 = sent s @ ?out"
      by (simp_all add: broadcast_def)
    show ?thesis
    proof (cases "truthy (get_prop ''items'' (get_prop ''data'' m))")
      case False
      with True Inr s2 logAudit_after[OF s2_sent] show ?thesis
        by (simp add: sale_update_case_def Let_def)
    next
      case items: True
      show ?thesis
      proof (cases "updateStockLevels (get_prop ''items'' (get_prop ''data'' m)) ?s2")
        case (Normal s3)
        then have s3: "sent s3 = sent s @ ?out"
          using s2_sent by (auto simp: updateStockLevels_def split: jsval.splits completion.splits)
        have "sale_update_case m now (s\<lparr>sent := l\<rparr>) =
                logAudit ''sale_created'' (get_prop ''data'' m) (now 1) (s3\<lparr>sent := l @ ?out\<rparr>)"
          using True Inr items s2 Normal s3 s2_sent
          by (simp add: sale_update_case_def Let_def updateStockLevels_relog relog_def)
        moreover have "sale_update_case m now s =
                logAudit ''sale_created'' (get_prop ''data'' m) (now 1) s3"
          using True Inr items Normal by (simp add: sale_update_case_def Let_def)
        ultimately show ?thesis using logAudit_after[OF s3] by simp
      next
        case (Thrown s3)
        then have s3: "sent s3 = sent s @ ?out"
          using s2_sent by (auto simp: updateStockLevels_def split: jsval.splits completion.splits)
        with True Inr items s2 Thrown s2_sent show ?thesis
          by (simp add: sale_update_case_def Let_def updateStockLevels_relog relog_def)
      next
        case Unmodelled
        with True Inr items s2 show ?thesis
          by (simp add: sale_update_case_def Let_def updateStockLevels_relog relog_def)
      qed
    qed
  qed
qed


lemma transaction_relog:
  "transaction_update_case m now (s\<lparr>sent := l\<rparr>) = relog l s (transaction_update_case m now s)"
  by (simp add: transaction_update_case_def Let_def logAudit_def broadcast_def relog_def
      split: sum.splits)

lemma try_block_relog:
  "try_block ws m now (s\<lparr>sent := l\<rparr>) = relog l s (try_block ws m now s)"
proof -
  have simple:
    "auth_case ws m now (s\<lparr>sent := l\<rparr>) =
       (auth_case ws m now s)\<lparr>sent := l @ drop (length (sent s)) (sent (auth_case ws m now s))\<rparr>"
    "stock_update_case m (s\<lparr>sent := l\<rparr>) =
       (stock_update_case m s)\<lparr>sent := l @ drop (length (sent s)) (sent (stock_update_case m s))\<rparr>"
    "sync_request_case ws (s\<lparr>sent := l\<rparr>) =
       (sync_request_case ws s)\<lparr>sent := l @ drop (length (sent s)) (sent (sync_request_case ws s))\<rparr>"
    by (simp_all add: auth_case_def stock_update_case_def sync_request_case_def send_def
        broadcast_def Let_def)
  show ?thesis
    unfolding try_block_def
    by (simp add: simple sale_relog transaction_relog) (simp add: relog_def)
qed

lemma thrown_grows:
  "sale_update_case m now s = Thrown r \<Longrightarrow> length (sent s) \<le> length (sent r)"
  "transaction_update_case m now s = Thrown r \<Longrightarrow> length (sent s) \<le> length (sent r)"
  by (auto simp: sale_update_case_def transaction_update_case_def Let_def logAudit_def
        broadcast_def
      dest!: updateStockLevels_sent_eq updateStockLevels_sent_eq2
      split: if_splits sum.splits completion.splits)

lemma try_block_thrown_grows:
  "try_block ws m now s = Thrown r \<Longrightarrow> length (sent s) \<le> length (sent r)"
  by (auto simp: try_block_def dest: thrown_grows split: if_splits)

lemma onmessage_relog:
  "onmessage ws f now (s\<lparr>sent := l\<rparr>) =
     map_option (\<lambda>r. r\<lparr>sent := l @ drop (length (sent s)) (sent r)\<rparr>) (onmessage ws f now s)"
proof (cases f)
  case None
  then show ?thesis by (simp add: onmessage_def send_def)
next
  case (Some m)
  then show ?thesis
    by (cases "try_block ws m now s")
       (auto simp add: onmessage_def try_block_relog relog_def send_def
          dest: try_block_thrown_grows)
qed

subsection \<open>Frames that do not parse\<close>

text \<open>
  C4, as amended. In \<^verbatim>\<open>server.ts\<close> a frame that \<^verbatim>\<open>JSON.parse\<close> rejects makes the
  handler send one \<^verbatim>\<open>error\<close> message to the sender and nothing to anyone else; the
  registry, the sessions and the cache are unchanged, so the next frame \<open>f\<close> of any socket
  \<open>w\<close> is handled exactly as it would have been, its sends following the error notice. In
  the second file such a frame changes nothing and nothing is sent.
\<close>

theorem unparseable_frame:
  "onmessage ws None now s = Some (s\<lparr>sent := sent s @ [(ws, error_message)]\<rparr>)
   \<and> onmessage w f n (s\<lparr>sent := sent s @ [(ws, error_message)]\<rparr>) =
       map_option
         (\<lambda>r. r\<lparr>sent := sent s @ [(ws, error_message)] @ drop (length (sent s)) (sent r)\<rparr>)
         (onmessage w f n s)
   \<and> onmessage_part0 ws None s = s"
  by (simp add: onmessage_relog) (simp add: onmessage_def send_def onmessage_part0_def)

text \<open>
  The claim as stated fails in the second file: after a frame that does not parse, the
  log of sends is as empty as before.
\<close>

theorem unparseable_frame_counterexample:
  "sent (onmessage_part0 0 None example_state) = []"
  by (simp add: onmessage_part0_def example_state_def)


subsection \<open>auth\<close>

text \<open>
  C6, as amended. On an \<^verbatim>\<open>auth\<close> message, \<^verbatim>\<open>server.ts\<close> acts only when \<^verbatim>\<open>userType\<close> and
  \<^verbatim>\<open>userName\<close> are both truthy (present and not empty): it then sets the session of the
  socket to these two fields and a timestamp, and replies to the socket with
  \<^verbatim>\<open>initial_data\<close> carrying the stock, sales and transactions collections (not the
  audit collection); otherwise it does nothing. The second file sets the session on
  every \<^verbatim>\<open>auth\<close> message, whether or not the two fields are present, and replies with
  the acknowledgment \<^verbatim>\<open>auth_success\<close>.
\<close>

theorem auth_effect:
  assumes "get_prop ''type'' message = JStr ''auth''"
  shows "onmessage ws (Some message) now s =
           Some (if truthy (get_prop ''userType'' message) \<and> truthy (get_prop ''userName'' message)
                 then s\<lparr>sessions := (sessions s)(ws \<mapsto>
                            JObj [(''userType'', get_prop ''userType'' message),
                                  (''userName'', get_prop ''userName'' message),
                                  (''timestamp'', JNum (now 0))]),
                          sent := sent s @
                            [(ws, JObj [(''type'', JStr ''initial_data''),
                                        (''stockItems'', stockItems (cache s)),
                                        (''sales'', sales (cache s)),
                                        (''transactions'', transactions (cache s))])]\<rparr>
                 else s)
       \<and> onmessage_part0 ws (Some message) s =
           s\<lparr>sessions := (sessions s)(ws \<mapsto>
                    JObj [(''userType'', get_prop ''userType'' message),
                          (''userName'', get_prop ''userName'' message),
                          (''authenticated'', JBool True)]),
               sent := sent s @
                 [(ws, JObj [(''type'', JStr ''auth_success''),
                             (''message'', JStr ''Authenticated'')])]\<rparr>"
  using assms
  by (auto simp: onmessage_def try_block_def auth_case_def send_def
        onmessage_part0_def handleWebSocketMessage_def
      dest: get_prop_not_nullish)

theorem auth_effect_witness:
  "map_option (\<lambda>r. (sessions r 0, sent r)) (onmessage 0 (Some auth_frame) clock example_state) =
     Some (Some (JObj [(''userType'', JStr ''admin''), (''userName'', JStr ''Sara''),
                       (''timestamp'', JNum 1000)]),
           [(0, JObj [(''type'', JStr ''initial_data''), (''stockItems'', example_stock),
                      (''sales'', JArr []), (''transactions'', JArr [])])])
   \<and> onmessage 0 (Some (frame_of ''auth'')) clock example_state = Some example_state
   \<and> sent (onmessage_part0 0 (Some auth_frame) example_state) =
       [(0, JObj [(''type'', JStr ''auth_success''), (''message'', JStr ''Authenticated'')])]"
  using auth_effect [of auth_frame 0 clock example_state]
        auth_effect [of "frame_of ''auth''" 0 clock example_state]
  by (simp add: auth_frame_def frame_of_def example_state_def initial_cache_def clock_def)

text \<open>
  The claim as stated fails twice. In the second file an \<^verbatim>\<open>auth\<close> message with
  neither field creates a session all the same. And the reply of \<^verbatim>\<open>server.ts\<close> to an
  \<^verbatim>\<open>auth\<close> message with both fields has three collections and no \<^verbatim>\<open>audit\<close>.
\<close>

theorem auth_counterexample:
  "sessions (onmessage_part0 0 (Some (frame_of ''auth'')) example_state) 0 =
     Some (JObj [(''userType'', JUndefined), (''userName'', JUndefined),
                 (''authenticated'', JBool True)])
   \<and> map_option (map (get_prop ''audit'' \<circ> snd) \<circ> sent)
         (onmessage 0 (Some auth_frame) clock example_state) = Some [JUndefined]"
  by (simp add: onmessage_part0_def handleWebSocketMessage_def frame_of_def send_def
      onmessage_def try_block_def auth_case_def auth_frame_def example_state_def)

subsection \<open>Unregistering a socket\<close>

text \<open>
  C8, as amended. In \<^verbatim>\<open>server.ts\<close> the close and the error notification of a socket do
  the same: the socket leaves the registry and its session is dropped, so that no session
  of it remains, and nothing else changes. In the second file the two notifications remove
  the socket from the registry.
\<close>

theorem unregister_effect:
  "onclose ws s =
     s\<lparr>connections := removeAll ws (connections s), sessions := (sessions s)(ws := None)\<rparr>
   \<and> onerror ws s = onclose ws s
   \<and> ws \<notin> set (connections (onclose ws s))
   \<and> sessions (onclose ws s) ws = None
   \<and> connections (onclose_part0 ws s) = removeAll ws (connections s)
   \<and> connections (onerror_part0 ws s) = removeAll ws (connections s)"
  by (simp add: onclose_def onerror_def onclose_part0_def onerror_part0_def set_delete_def)

text \<open>
  The claim as stated fails in the second file: a socket registers, authenticates and
  closes; the registry is empty again, and the session of the socket is still there.
\<close>

theorem unregister_counterexample:
  "sessions (onclose_part0 0 (onmessage_part0 0 (Some auth_frame)
       (handleWebSocket 0 initial_state))) 0 =
     Some (JObj [(''userType'', JStr ''admin''), (''userName'', JStr ''Sara''),
                 (''authenticated'', JBool True)])
   \<and> connections (onclose_part0 0 (onmessage_part0 0 (Some auth_frame)
       (handleWebSocket 0 initial_state))) = []"
  by (simp add: onmessage_part0_def handleWebSocketMessage_def auth_frame_def send_def
      onclose_part0_def handleWebSocket_def initial_state_def set_add_def set_delete_def)

subsection \<open>The second file: a sale over HTTP and over the socket\<close>

text \<open>
  C2, as amended. In the second file, a \<^verbatim>\<open>sale_update\<close> message with payload \<open>B\<close> sends
  \<^verbatim>\<open>sale_update\<close> with \<open>B\<close> to every registered socket that is open, and leaves the
  cache as it was. A \<^verbatim>\<open>POST /api/sales\<close> with body \<open>B\<close>, when the cached sales
  collection is an array, appends \<open>B\<close> to it and sends the same message to the same
  sockets; when the cached sales collection is not an array, it answers 500, changes
  nothing and sends nothing.
\<close>

theorem sale_post_and_message:
  assumes "pathname req = ''/api/sales''" and "http_method req = ''POST''"
      and "body req = Some B"
      and "get_prop ''type'' message = JStr ''sale_update''"
      and "get_prop ''data'' message = B"
  shows "onmessage_part0 ws (Some message) s =
           s\<lparr>sent := sent s @
                map (\<lambda>c. (c, JObj [(''type'', JStr ''sale_update''), (''data'', B)]))
                  (filter (\<lambda>c. readyState s c = OPEN) (connections s))\<rparr>
       \<and> handleRequest_part0 req socket s =
           (case sales (cache s) of
              JArr xs \<Rightarrow>
                (success,
                 s\<lparr>cache := (cache s)\<lparr>sales := JArr (xs @ [B])\<rparr>,
                    sent := sent s @
                      map (\<lambda>c. (c, JObj [(''type'', JStr ''sale_update''), (''data'', B)]))
                        (filter (\<lambda>c. readyState s c = OPEN) (connections s))\<rparr>)
            | _ \<Rightarrow> (internal_error, s))"
proof -
  have "handleRequest_part0 req socket s =
          post_record sales (\<lambda>a c. c\<lparr>sales := a\<rparr>) ''sale_update'' req s"
    using assms(1,2) by (simp add: handleRequest_part0_def handleAPI_def)
  then show ?thesis
    using assms(3,4,5)
    by (cases "sales (cache s)")
       (auto simp: onmessage_part0_def handleWebSocketMessage_def relay_def broadcast_def
          post_record_def
        dest: get_prop_not_nullish)
qed

theorem sale_post_and_message_witness:
  "sent (onmessage_part0 0 (Some (frame_with ''sale_update'' (line 1 3))) example_state) =
     [(0, frame_with ''sale_update'' (line 1 3)), (1, frame_with ''sale_update'' (line 1 3))]
   \<and> handleRequest_part0 (post ''/api/sales'' (Some (line 1 3))) 9 example_state =
       (success,
        example_state
          \<lparr>cache := initial_cache\<lparr>stockItems := example_stock, sales := JArr [line 1 3]\<rparr>,
           sent := [(0, frame_with ''sale_update'' (line 1 3)),
                    (1, frame_with ''sale_update'' (line 1 3))]\<rparr>)"
  using sale_post_and_message
          [of "post ''/api/sales'' (Some (line 1 3))" "line 1 3"
              "frame_with ''sale_update'' (line 1 3)" 0 example_state 9]
  by (simp add: post_def frame_with_def example_state_def initial_cache_def)

text \<open>
  The claim as stated fails twice. From the same state, the request leaves the sale in
  the cache and the message does not. And once a \<^verbatim>\<open>sync_response\<close> has made the cached
  sales collection the number 5, the request answers 500 and sends nothing, while the
  message is sent to the two open sockets.
\<close>

theorem sale_post_and_message_counterexample:
  "sales (cache (snd (handleRequest_part0 (post ''/api/sales'' (Some (line 1 3))) 9
       example_state))) = JArr [line 1 3]
   \<and> sales (cache (onmessage_part0 0 (Some (frame_with ''sale_update'' (line 1 3)))
       example_state)) = JArr []
   \<and> handleRequest_part0 (post ''/api/sales'' (Some (line 1 3))) 9
       (onmessage_part0 0
          (Some (frame_with ''sync_response'' (JObj [(''sales'', JNum 5)]))) example_state)
     = (internal_error, example_state\<lparr>cache := (cache example_state)\<lparr>sales := JNum 5\<rparr>\<rparr>)
   \<and> map fst (sent (onmessage_part0 0 (Some (frame_with ''sale_update'' (line 1 3)))
       (onmessage_part0 0
          (Some (frame_with ''sync_response'' (JObj [(''sales'', JNum 5)]))) example_state)))
     = [0, 1]"
  by (simp add: handleRequest_part0_def handleAPI_def post_record_def post_def broadcast_def
      onmessage_part0_def handleWebSocketMessage_def relay_def frame_with_def
      example_state_def initial_cache_def Object_assign_def cache_put_def)

subsection \<open>The members of the cache object\<close>

lemma array_index_names:
  "array_index ''type'' = None" "array_index ''stockItems'' = None"
  "array_index ''sales'' = None" "array_index ''transactions'' = None"
  "array_index ''audit'' = None"
  by (simp_all add: array_index_def is_digit_def)

lemma own_order_named:
  assumes "list_all (\<lambda>kv. array_index (fst kv) = None) ps"
  shows "own_order ps = ps"
proof -
  have "List.map_filter (\<lambda>kv. map_option (\<lambda>i. (i, kv)) (array_index (fst kv))) ps = []"
    using assms by (induction ps) (auto simp: List.map_filter_simps)
  moreover have "filter (\<lambda>kv. array_index (fst kv) = None) ps = ps"
    using assms by (induction ps) auto
  ultimately show ?thesis by (simp add: own_order_def)
qed

lemma map_of_filter_key:
  "P k \<Longrightarrow> map_of (filter (\<lambda>kv. P (fst kv)) ps) k = map_of ps k"
  by (induction ps) auto

lemma map_of_own_order:
  assumes "array_index k = None"
  shows "map_of (own_order ps) k = map_of ps k"
proof -
  let ?indexed =
    "List.map_filter (\<lambda>kv. map_option (\<lambda>i. (i, kv)) (array_index (fst kv))) ps"
  have "array_index (fst kv) \<noteq> None" if "kv \<in> snd ` set ?indexed" for kv
    using that by (auto simp: List.map_filter_def)
  then have "k \<notin> fst ` set (map snd (sort_key fst ?indexed))"
    using assms by force
  then have "map_of (map snd (sort_key fst ?indexed)) k = None"
    by (simp add: map_of_eq_None_iff)
  moreover have "map_of (filter (\<lambda>kv. array_index (fst kv) = None) ps) k = map_of ps k"
    using assms map_of_filter_key [of "\<lambda>k. array_index k = None" k ps] by simp
  ultimately show ?thesis
    by (simp add: own_order_def map_add_def)
qed

text \<open>The four collections are members of the cache object, whatever else it has.\<close>

lemma cache_props_collections:
  "get_prop ''stockItems'' (JObj (cache_props c)) = stockItems c"
  "get_prop ''sales'' (JObj (cache_props c)) = sales c"
  "get_prop ''transactions'' (JObj (cache_props c)) = transactions c"
  "get_prop ''audit'' (JObj (cache_props c)) = audit c"
  by (simp_all add: cache_props_def map_of_own_order array_index_names)

text \<open>
  The cache object of \<^verbatim>\<open>server.ts\<close> has the four collections and nothing else: no
  handler of that file gives it another member.
\<close>

lemma updateStockLevels_extra:
  "updateStockLevels items s = Normal r \<Longrightarrow> extra (cache r) = extra (cache s)"
  "updateStockLevels items s = Thrown r \<Longrightarrow> extra (cache r) = extra (cache s)"
  by (auto simp: updateStockLevels_def split: jsval.splits completion.splits)

lemma logAudit_extra:
  "logAudit a d n s = Normal r \<Longrightarrow> extra (cache r) = extra (cache s)"
  "logAudit a d n s = Thrown r \<Longrightarrow> extra (cache r) = extra (cache s)"
  by (auto simp: logAudit_def broadcast_def split: sum.splits)

lemma sale_extra:
  "sale_update_case m now s = Normal r \<Longrightarrow> extra (cache r) = extra (cache s)"
  "sale_update_case m now s = Thrown r \<Longrightarrow> extra (cache r) = extra (cache s)"
proof -
  have bc: "extra (cache (broadcast x (s\<lparr>cache := (cache s)\<lparr>sales := a\<rparr>\<rparr>))) = extra (cache s)"
    for x a
    by (simp add: broadcast_def)
  show "sale_update_case m now s = Normal r \<Longrightarrow> extra (cache r) = extra (cache s)"
    by (auto simp: sale_update_case_def Let_def bc
        dest!: logAudit_extra(1) updateStockLevels_extra(1)
        split: if_splits sum.splits completion.splits)
  show "sale_update_case m now s = Thrown r \<Longrightarrow> extra (cache r) = extra (cache s)"
    by (auto simp: sale_update_case_def Let_def bc
        dest!: logAudit_extra(2) updateStockLevels_extra
        split: if_splits sum.splits completion.splits)
qed

lemma transaction_extra:
  "transaction_update_case m now s = Normal r \<Longrightarrow> extra (cache r) = extra (cache s)"
  "transaction_update_case m now s = Thrown r \<Longrightarrow> extra (cache r) = extra (cache s)"
  by (auto simp: transaction_update_case_def Let_def logAudit_def broadcast_def
      split: if_splits sum.splits)

lemma try_block_extra:
  "try_block ws m now s = Normal r \<Longrightarrow> extra (cache r) = extra (cache s)"
  "try_block ws m now s = Thrown r \<Longrightarrow> extra (cache r) = extra (cache s)"
  by (auto simp: try_block_def auth_case_def stock_update_case_def sync_request_case_def
        send_def broadcast_def Let_def
      dest: sale_extra transaction_extra split: if_splits)

lemma onmessage_extra:
  "onmessage ws f now s = Some r \<Longrightarrow> extra (cache r) = extra (cache s)"
  by (auto simp: onmessage_def send_def dest: try_block_extra
      split: option.splits completion.splits)

lemma handleRequest_extra:
  "extra (cache (snd (handleRequest req socket answer s))) = extra (cache s)"
  by (simp add: handleRequest_def handleWebSocket_def clear_cache_def broadcast_def Let_def)

lemma notification_extra:
  "extra (cache (onopen ws s)) = extra (cache s)"
  "extra (cache (onclose ws s)) = extra (cache s)"
  "extra (cache (onerror ws s)) = extra (cache s)"
  by (simp_all add: onopen_def onclose_def onerror_def send_def)

lemma initial_extra: "extra (cache initial_state) = []"
  by (simp add: initial_state_def initial_cache_def)

text \<open>
  In \<^verbatim>\<open>server.ts\<close> the sales, transactions and audit collections are arrays at the start,
  and every handler leaves them arrays.
\<close>

lemma push_is_array: "push v x = Inr a \<Longrightarrow> is_array a"
  by (cases v) auto

lemma updateStockLevels_arrays:
  "updateStockLevels items s = Normal r \<Longrightarrow> arrays_kept (cache s) \<Longrightarrow> arrays_kept (cache r)"
  "updateStockLevels items s = Thrown r \<Longrightarrow> arrays_kept (cache s) \<Longrightarrow> arrays_kept (cache r)"
  by (auto simp: updateStockLevels_def arrays_kept_def split: jsval.splits completion.splits)

lemma logAudit_arrays:
  "logAudit a d n s = Normal r \<Longrightarrow> arrays_kept (cache s) \<Longrightarrow> arrays_kept (cache r)"
  "logAudit a d n s = Thrown r \<Longrightarrow> arrays_kept (cache s) \<Longrightarrow> arrays_kept (cache r)"
  by (auto simp: logAudit_def broadcast_def arrays_kept_def dest: push_is_array
      split: sum.splits)

lemma sale_arrays:
  assumes "arrays_kept (cache s)"
  shows "sale_update_case m now s = Normal r \<Longrightarrow> arrays_kept (cache r)"
    and "sale_update_case m now s = Thrown r \<Longrightarrow> arrays_kept (cache r)"
proof -
  have bc: "arrays_kept (cache (broadcast x (s\<lparr>cache := (cache s)\<lparr>sales := a\<rparr>\<rparr>)))"
    if "is_array a" for x a
    using assms that by (simp add: broadcast_def arrays_kept_def)
  show "sale_update_case m now s = Normal r \<Longrightarrow> arrays_kept (cache r)"
    using assms
    by (auto simp: sale_update_case_def Let_def
        dest!: push_is_array
        dest: logAudit_arrays(1) updateStockLevels_arrays(1) bc
        split: if_splits sum.splits completion.splits)
  show "sale_update_case m now s = Thrown r \<Longrightarrow> arrays_kept (cache r)"
    using assms
    by (auto simp: sale_update_case_def Let_def
        dest!: push_is_array
        dest: logAudit_arrays(2) updateStockLevels_arrays bc
        split: if_splits sum.splits completion.splits)
qed

lemma transaction_arrays:
  assumes "arrays_kept (cache s)"
  shows "transaction_update_case m now s = Normal r \<Longrightarrow> arrays_kept (cache r)"
    and "transaction_update_case m now s = Thrown r \<Longrightarrow> arrays_kept (cache r)"
  using assms
  by (auto simp: transaction_update_case_def Let_def logAudit_def broadcast_def
        arrays_kept_def
      dest!: push_is_array split: if_splits sum.splits)

lemma try_block_arrays:
  assumes "arrays_kept (cache s)"
  shows "try_block ws m now s = Normal r \<Longrightarrow> arrays_kept (cache r)"
    and "try_block ws m now s = Thrown r \<Longrightarrow> arrays_kept (cache r)"
proof -
  have simple:
    "arrays_kept (cache (auth_case ws m now s))"
    "arrays_kept (cache (stock_update_case m s))"
    "arrays_kept (cache (sync_request_case ws s))"
    using assms
    by (simp_all add: auth_case_def stock_update_case_def sync_request_case_def send_def
        broadcast_def Let_def arrays_kept_def)
  show "try_block ws m now s = Normal r \<Longrightarrow> arrays_kept (cache r)"
    using assms simple
    by (auto simp: try_block_def dest: sale_arrays(1) transaction_arrays(1)
        split: if_splits)
  show "try_block ws m now s = Thrown r \<Longrightarrow> arrays_kept (cache r)"
    using assms
    by (auto simp: try_block_def dest: sale_arrays(2) transaction_arrays(2)
        split: if_splits)
qed

lemma onmessage_arrays:
  assumes "arrays_kept (cache s)" and "onmessage ws f now s = Some r"
  shows "arrays_kept (cache r)"
  using assms
  by (auto simp: onmessage_def send_def dest: try_block_arrays
      split: option.splits completion.splits)

lemma handleRequest_arrays:
  assumes "arrays_kept (cache s)"
  shows "arrays_kept (cache (snd (handleRequest req socket answer s)))"
  using assms
  by (simp add: handleRequest_def handleWebSocket_def clear_cache_def broadcast_def
      arrays_kept_def Let_def)

lemma notification_arrays:
  "arrays_kept (cache (onopen ws s)) = arrays_kept (cache s)"
  "arrays_kept (cache (onclose ws s)) = arrays_kept (cache s)"
  "arrays_kept (cache (onerror ws s)) = arrays_kept (cache s)"
  by (simp_all add: onopen_def onclose_def onerror_def send_def)

lemma initial_arrays: "arrays_kept (cache initial_state)"
  by (simp add: initial_state_def initial_cache_def arrays_kept_def)

subsection \<open>sync_request\<close>

text \<open>
  C5. In every state of \<^verbatim>\<open>server.ts\<close>, that is, whenever its cache object has the four
  collections and no other member, hence after any sequence of events, a
  \<^verbatim>\<open>sync_request\<close> message makes it send one message, to the requesting socket only:
  \<^verbatim>\<open>sync_response\<close> with the four collections as the cache holds them; nothing else
  changes. The second file does the same in any state \<open>s'\<close> whatever: its snapshot is the
  whole cache object under \<^verbatim>\<open>data\<close>, of which the four collections are members.
\<close>

theorem sync_request_snapshot:
  assumes "get_prop ''type'' message = JStr ''sync_request''"
      and "extra (cache s) = []"
  shows "onmessage ws (Some message) now s =
           Some (s\<lparr>sent := sent s @
              [(ws, JObj [(''type'', JStr ''sync_response''),
                          (''stockItems'', stockItems (cache s)),
                          (''sales'', sales (cache s)),
                          (''transactions'', transactions (cache s)),
                          (''audit'', audit (cache s))])]\<rparr>)
       \<and> onmessage_part0 ws (Some message) s' =
           s'\<lparr>sent := sent s' @
              [(ws, JObj [(''type'', JStr ''sync_response''),
                          (''data'', JObj (cache_props (cache s')))])]\<rparr>
       \<and> get_prop ''stockItems'' (JObj (cache_props (cache s'))) = stockItems (cache s')
       \<and> get_prop ''sales'' (JObj (cache_props (cache s'))) = sales (cache s')
       \<and> get_prop ''transactions'' (JObj (cache_props (cache s'))) = transactions (cache s')
       \<and> get_prop ''audit'' (JObj (cache_props (cache s'))) = audit (cache s')"
proof -
  have "cache_props (cache s) =
          [(''stockItems'', stockItems (cache s)), (''sales'', sales (cache s)),
           (''transactions'', transactions (cache s)), (''audit'', audit (cache s))]"
    using assms(2) by (simp add: cache_props_def own_order_named array_index_names)
  then have "onmessage ws (Some message) now s =
           Some (s\<lparr>sent := sent s @
              [(ws, JObj [(''type'', JStr ''sync_response''),
                          (''stockItems'', stockItems (cache s)),
                          (''sales'', sales (cache s)),
                          (''transactions'', transactions (cache s)),
                          (''audit'', audit (cache s))])]\<rparr>)"
    using assms(1) get_prop_not_nullish[OF assms(1)]
    by (simp add: onmessage_def try_block_def sync_request_case_def send_def assign_def
        set_prop_def own_order_named array_index_names)
  moreover have "onmessage_part0 ws (Some message) s' =
           s'\<lparr>sent := sent s' @
              [(ws, JObj [(''type'', JStr ''sync_response''),
                          (''data'', JObj (cache_props (cache s')))])]\<rparr>"
    using assms(1) get_prop_not_nullish[OF assms(1)]
    by (simp add: onmessage_part0_def handleWebSocketMessage_def send_def)
  ultimately show ?thesis
    by (simp only: cache_props_collections simp_thms)
qed

theorem sync_request_snapshot_witness:
  "map_option sent (onmessage 0 (Some (frame_of ''sync_request'')) clock example_reached) =
     Some [(0, frame_with ''stock_updated'' example_stock),
           (0, JObj [(''type'', JStr ''sync_response''), (''stockItems'', example_stock),
                     (''sales'', JArr []), (''transactions'', JArr []), (''audit'', JArr [])])]
   \<and> get_prop ''stockItems''
        (JObj (cache_props
           (Object_assign (cache example_state) (JObj [(''7'', JNum 2), (''note'', JNull)]))))
       = example_stock"
  using sync_request_snapshot
          [of "frame_of ''sync_request''" example_reached 0 clock
              "example_state\<lparr>cache :=
                 Object_assign (cache example_state) (JObj [(''7'', JNum 2), (''note'', JNull)])\<rparr>"]
  by (simp add: frame_of_def example_reached_def initial_cache_def example_state_def
      Object_assign_def cache_put_def)

text \<open>The members of a cache object that \<^verbatim>\<open>Object.assign\<close> has given the members \<^verbatim>\<open>note\<close>
  and \<^verbatim>\<open>7\<close>, in that order: the array index comes first.\<close>

lemma cache_props_example:
  "map fst (cache_props (initial_cache\<lparr>extra := [(''note'', JNull), (''7'', JNum 2)]\<rparr>)) =
     [''7'', ''stockItems'', ''sales'', ''transactions'', ''audit'', ''note'']"
  by (simp add: cache_props_def own_order_def List.map_filter_simps array_index_def
      is_digit_def index_value_def initial_cache_def char_of_def bit_simps)

subsection \<open>server.ts: clear-cache\<close>

text \<open>
  C7, as amended. In every state of \<^verbatim>\<open>server.ts\<close> (its cache object having the four
  collections and no other member), a \<^verbatim>\<open>POST\<close> to \<^verbatim>\<open>/api/clear-cache\<close> that does not
  carry the header \<^verbatim>\<open>upgrade: websocket\<close> empties the four collections, sends
  \<^verbatim>\<open>cache_cleared\<close> to every registered socket that is open, and answers 200 with a
  confirmation; a \<^verbatim>\<open>sync_request\<close> handled next is answered with four empty arrays.
\<close>

theorem clear_cache_effect:
  assumes "upgrade req \<noteq> Some ''websocket''"
      and "pathname req = ''/api/clear-cache''"
      and "http_method req = ''POST''"
      and "get_prop ''type'' message = JStr ''sync_request''"
      and "extra (cache s) = []"
  shows "handleRequest req socket answer s =
           (Response 200 json_headers
              (JsonBody (JObj [(''message'', JStr ''Cache cleared successfully'')])),
            s\<lparr>cache := (cache s)\<lparr>stockItems := JArr [], sales := JArr [],
                                   transactions := JArr [], audit := JArr []\<rparr>,
               sent := sent s @ map (\<lambda>c. (c, JObj [(''type'', JStr ''cache_cleared'')]))
                                   (filter (\<lambda>c. readyState s c = OPEN) (connections s))\<rparr>)
       \<and> onmessage ws (Some message) now (snd (handleRequest req socket answer s)) =
           Some ((snd (handleRequest req socket answer s))
                   \<lparr>sent := sent (snd (handleRequest req socket answer s)) @
                      [(ws, JObj [(''type'', JStr ''sync_response''),
                                  (''stockItems'', JArr []), (''sales'', JArr []),
                                  (''transactions'', JArr []), (''audit'', JArr [])])]\<rparr>)"
proof -
  have cleared: "handleRequest req socket answer s =
           (Response 200 json_headers
              (JsonBody (JObj [(''message'', JStr ''Cache cleared successfully'')])),
            s\<lparr>cache := (cache s)\<lparr>stockItems := JArr [], sales := JArr [],
                                   transactions := JArr [], audit := JArr []\<rparr>,
               sent := sent s @ map (\<lambda>c. (c, JObj [(''type'', JStr ''cache_cleared'')]))
                                   (filter (\<lambda>c. readyState s c = OPEN) (connections s))\<rparr>)"
    using assms(1,2,3) by (simp add: handleRequest_def clear_cache_def broadcast_def)
  have "extra (cache (snd (handleRequest req socket answer s))) = []"
    using assms(5) by (simp add: handleRequest_extra)
  from sync_request_case_def cleared this show ?thesis
    using assms(4) get_prop_not_nullish[OF assms(4)]
    by (simp add: onmessage_def try_block_def sync_request_case_def send_def assign_def
        set_prop_def cache_props_def own_order_named array_index_names)
qed

theorem clear_cache_effect_witness:
  "handleRequest (post ''/api/clear-cache'' None) 9 (Inr JNull) example_reached =
     (Response 200 json_headers
        (JsonBody (JObj [(''message'', JStr ''Cache cleared successfully'')])),
      example_reached\<lparr>cache := initial_cache,
         sent := [(0, frame_with ''stock_updated'' example_stock),
                  (0, frame_of ''cache_cleared'')]\<rparr>)
   \<and> map_option (last \<circ> sent)
         (onmessage 0 (Some (frame_of ''sync_request'')) clock
            (snd (handleRequest (post ''/api/clear-cache'' None) 9 (Inr JNull) example_reached))) =
       Some (0, JObj [(''type'', JStr ''sync_response''),
                      (''stockItems'', JArr []), (''sales'', JArr []),
                      (''transactions'', JArr []), (''audit'', JArr [])])"
proof -
  have "upgrade (post ''/api/clear-cache'' None) \<noteq> Some ''websocket''"
    and "pathname (post ''/api/clear-cache'' None) = ''/api/clear-cache''"
    and "http_method (post ''/api/clear-cache'' None) = ''POST''"
    and "get_prop ''type'' (frame_of ''sync_request'') = JStr ''sync_request''"
    and "extra (cache example_reached) = []"
    by (simp_all add: post_def frame_of_def example_reached_def initial_cache_def)
  from clear_cache_effect [OF this, of 9 "Inr JNull" 0 clock]
  show ?thesis
    by (auto simp add: example_reached_def frame_of_def initial_cache_def)
qed

text \<open>
  The claim as stated fails for a \<^verbatim>\<open>POST\<close> to \<^verbatim>\<open>/api/clear-cache\<close> that carries the header
  \<^verbatim>\<open>upgrade: websocket\<close>: the request is taken as an upgrade before its path is looked
  at, the stock of two items stays in the cache and nothing is sent.
\<close>

theorem clear_cache_counterexample:
  "cache (snd (handleRequest ((post ''/api/clear-cache'' None)\<lparr>upgrade := Some ''websocket''\<rparr>)
       9 (Inr JNull) example_reached)) = cache example_reached
   \<and> sent (snd (handleRequest ((post ''/api/clear-cache'' None)\<lparr>upgrade := Some ''websocket''\<rparr>)
       9 (Inr JNull) example_reached)) = sent example_reached
   \<and> stockItems (cache example_reached) = example_stock
   \<and> example_stock \<noteq> JArr []"
  by (simp add: handleRequest_def handleWebSocket_def post_def
      example_reached_def example_stock_def)

subsection \<open>server.ts: sale_update\<close>

text \<open>What \<open>adjustStock\<close> does to a stock without, and with, a record of the identifier.\<close>

lemma adjustStock_no_match:
  "list_all (\<lambda>r. \<not> strict_eq (get_prop ''id'' r) itemId) rs \<Longrightarrow>
     adjustStock itemId delta rs = rs"
  by (induction rs) auto

lemma adjustStock_first_match:
  "list_all (\<lambda>r. \<not> strict_eq (get_prop ''id'' r) itemId) ps \<Longrightarrow>
   strict_eq (get_prop ''id'' r) itemId \<Longrightarrow>
     adjustStock itemId delta (ps @ r # rs) =
       ps @ set_quantity (quantity_of (get_prop ''quantity'' r) - delta) r # rs"
  by (induction ps) auto











end
